theory Spec2Isabelle
  imports Main "HOL-Library.Word" "HOL-Library.Signed_Division"
begin

unbundle bit_operations_syntax

section \<open>Machine types of the C sources\<close>

text \<open>
  The sources are C. \<open>u_int8_t\<close>, \<open>u_int16_t\<close> and \<open>u_int32_t\<close> are words of that width
  with wrap-around arithmetic. A C \<open>int\<close> is a 32-bit word read in two's complement
  (\<open>sint\<close>), compared with the signed orders \<open>word_sless\<close> and \<open>word_sle\<close>; signed
  overflow, which C leaves undefined, is modelled by the wrap-around of the word type.
  A \<open>time_t\<close> value is an \<open>int\<close>; storing it in a 32-bit field keeps its low 32 bits
  (\<open>word_of_int\<close>).
\<close>

type_synonym u_int8_t = "8 word"
type_synonym u_int16_t = "16 word"
type_synonym u_int32_t = "32 word"
type_synonym c_int = "32 word"
type_synonym in6_addr = "128 word"
type_synonym time_t = int

definition INT_MAX :: c_int where
  "INT_MAX = 2147483647"

text \<open>The operator \<open>%\<close> of C on \<open>int\<close>: the remainder of the division that truncates
  towards zero.\<close>

definition c_rem :: "c_int \<Rightarrow> c_int \<Rightarrow> c_int" where
  "c_rem a b = word_of_int (sint a smod sint b)"

section \<open>Packet constants (packets\_pcp.h)\<close>

definition PCP_VERSION :: u_int8_t where
  "PCP_VERSION = 2"

definition MAP_OPCODE :: u_int8_t where
  "MAP_OPCODE = 1"

definition PEER_OPCODE :: u_int8_t where
  "PEER_OPCODE = 2"

text \<open>The macros \<open>R_REQUEST(opcode) (opcode & ~(1 << 7))\<close> and
  \<open>R_RESPONSE(opcode) (opcode | (1 << 7))\<close>, on the opcode byte \<open>r_opcode\<close> of a header.\<close>

definition R_REQUEST :: "u_int8_t \<Rightarrow> u_int8_t" where
  "R_REQUEST opcode = opcode AND NOT (push_bit 7 1)"

definition R_RESPONSE :: "u_int8_t \<Rightarrow> u_int8_t" where
  "R_RESPONSE opcode = opcode OR push_bit 7 1"

section \<open>The mapping store (api/pcp.c)\<close>

text \<open>
  Modelled from the spec: the declaration of \<open>struct pcp_mapping\<close> is in libpcp.h, which is
  not among the sources. The fields are those that \<open>pcp_mapping_find\<close> fills; their widths
  follow the parameters of \<open>pcp_mapping_add\<close> and section 3 of the specification (the two
  timestamps are 32-bit seconds, as \<open>pcp_mapping_remaining_lifetime_get\<close> and
  \<open>pcp_mapping_refresh_lifetime\<close> treat them). The field \<open>path\<close>, the string
  \<open>/pcp/mappings/<index>\<close>, is left out: it is determined by \<open>index\<close>.
\<close>

record pcp_mapping =
  index :: c_int
  mapping_nonce :: "u_int32_t \<times> u_int32_t \<times> u_int32_t"
  internal_ip :: in6_addr
  internal_port :: u_int16_t
  external_ip :: in6_addr
  external_port :: u_int16_t
  lifetime :: u_int32_t
  start_of_life :: u_int32_t
  end_of_life :: u_int32_t
  opcode :: u_int8_t
  protocol :: u_int8_t

text \<open>
  The Apteryx database below \<open>/pcp/mappings\<close>: one node per mapping, in the order in which
  \<open>apteryx_search\<close> lists them. A node is the id printed in its path together with the
  values stored under its keys (\<open>index\<close>, \<open>lifetime\<close>, \<open>start_of_life\<close>, ...). Every
  value passes through \<open>apteryx_set_int\<close> and \<open>apteryx_get_int\<close> as a 32-bit integer, which
  keeps the bits of each field. The database operations themselves are taken to succeed,
  and so are \<open>malloc\<close> and \<open>asprintf\<close>.
\<close>

type_synonym mapping_store = "(c_int \<times> pcp_mapping) list"

definition apteryx_search :: "mapping_store \<Rightarrow> c_int list" where
  "apteryx_search s = map fst s"

text \<open>The default of the source: \<open>#define MAXIMUM_MAPPING_ID INT_MAX\<close>, used unless the
  build defines the macro otherwise. The functions that read the macro take it as their
  first argument.\<close>

definition MAXIMUM_MAPPING_ID :: c_int where
  "MAXIMUM_MAPPING_ID = INT_MAX"

definition current_highest_index :: "mapping_store \<Rightarrow> c_int" where
  "current_highest_index s =
     foldl (\<lambda>max row. let index_id = index row in if max <s index_id then index_id else max)
       0 (map snd s)"

definition next_highest_id :: "c_int \<Rightarrow> mapping_store \<Rightarrow> c_int" where
  "next_highest_id maximum_mapping_id s =
     (let max_index = current_highest_index s + 11;
          idx = max_index - c_rem max_index 10
      in if maximum_mapping_id <s idx then - 1 else idx)"

definition next_mapping_id :: "c_int \<Rightarrow> mapping_store \<Rightarrow> c_int" where
  "next_mapping_id maximum_mapping_id s = next_highest_id maximum_mapping_id s"

definition pcp_mapping_find :: "mapping_store \<Rightarrow> c_int \<Rightarrow> pcp_mapping option" where
  "pcp_mapping_find s mapping_id =
     (case map_of s mapping_id of
        None \<Rightarrow> None
      | Some row \<Rightarrow> Some (row\<lparr>index := mapping_id\<rparr>))"

text \<open>
  \<open>pcp_mapping_add\<close> reads the clock twice, once for each timestamp it stores: \<open>t_start\<close>
  and \<open>t_end\<close> are the two values of \<open>time (NULL)\<close>. The result is the returned flag and
  the store afterwards.
\<close>

definition pcp_mapping_add ::
  "c_int \<Rightarrow> mapping_store \<Rightarrow> time_t \<Rightarrow> time_t \<Rightarrow> c_int \<Rightarrow> u_int32_t \<times> u_int32_t \<times> u_int32_t \<Rightarrow>
   in6_addr \<Rightarrow> u_int16_t \<Rightarrow> in6_addr \<Rightarrow> u_int16_t \<Rightarrow> u_int32_t \<Rightarrow> u_int8_t \<Rightarrow> u_int8_t \<Rightarrow>
   bool \<times> mapping_store" where
  "pcp_mapping_add maximum_mapping_id s t_start t_end index_arg nonce int_ip int_port ext_ip
       ext_port lifetime_arg opcode_arg protocol_arg =
     (let idx = (if index_arg = - 1 then next_mapping_id maximum_mapping_id s else index_arg)
      in if index_arg = - 1 \<and> idx <s 0 then (False, s)
         else (case pcp_mapping_find s idx of
                 Some mapping \<Rightarrow> (False, s)
               | None \<Rightarrow>
                   (True,
                    s @ [(idx,
                          \<lparr>index = idx,
                           mapping_nonce = nonce,
                           internal_ip = int_ip,
                           internal_port = int_port,
                           external_ip = ext_ip,
                           external_port = ext_port,
                           lifetime = lifetime_arg,
                           start_of_life = word_of_int t_start,
                           end_of_life = word_of_int (t_end + uint lifetime_arg),
                           opcode = opcode_arg,
                           protocol = protocol_arg\<rparr>)])))"

definition pcp_mapping_refresh_lifetime ::
  "mapping_store \<Rightarrow> time_t \<Rightarrow> c_int \<Rightarrow> u_int32_t \<Rightarrow> u_int32_t \<Rightarrow> bool \<times> mapping_store" where
  "pcp_mapping_refresh_lifetime s t idx new_lifetime new_end_of_life =
     (let expected = (word_of_int (t + uint new_lifetime) :: u_int32_t)
      in if new_end_of_life < expected - 3 \<or> expected + 3 < new_end_of_life then (False, s)
         else (case pcp_mapping_find s idx of
                 None \<Rightarrow> (False, s)
               | Some mapping \<Rightarrow>
                   (True,
                    map (\<lambda>(k, row).
                           if k = idx
                           then (k, row\<lparr>lifetime := new_lifetime, end_of_life := new_end_of_life\<rparr>)
                           else (k, row)) s)))"

definition pcp_mapping_delete :: "mapping_store \<Rightarrow> c_int \<Rightarrow> bool \<times> mapping_store" where
  "pcp_mapping_delete s idx =
     (case pcp_mapping_find s idx of
        None \<Rightarrow> (False, s)
      | Some mapping \<Rightarrow> (True, filter (\<lambda>(k, row). k \<noteq> idx) s))"

definition pcp_mapping_deleteall :: "mapping_store \<Rightarrow> bool \<times> mapping_store" where
  "pcp_mapping_deleteall s = (True, [])"

definition mapping_index_cmp :: "pcp_mapping \<Rightarrow> pcp_mapping \<Rightarrow> c_int" where
  "mapping_index_cmp a b = index a - index b"

text \<open>
  GLib's \<open>g_list_insert_sorted\<close>: the new element goes before the first element that the
  comparison function does not place before it (\<open>cmp data elem \<le> 0\<close>), and at the end when
  there is none.
\<close>

fun g_list_insert_sorted :: "'a list \<Rightarrow> 'a \<Rightarrow> ('a \<Rightarrow> 'a \<Rightarrow> c_int) \<Rightarrow> 'a list" where
  "g_list_insert_sorted [] x cmp = [x]"
| "g_list_insert_sorted (y # ys) x cmp =
     (if 0 <s cmp x y then y # g_list_insert_sorted ys x cmp else x # y # ys)"

text \<open>The loop of \<open>pcp_mapping_getall\<close> over the paths found; the id is read back from the
  last component of each path.\<close>

definition pcp_mapping_getall :: "mapping_store \<Rightarrow> pcp_mapping list" where
  "pcp_mapping_getall s =
     foldl (\<lambda>mappings mapping_id.
              case pcp_mapping_find s mapping_id of
                None \<Rightarrow> mappings
              | Some mapping \<Rightarrow> g_list_insert_sorted mappings mapping mapping_index_cmp)
       [] (apteryx_search s)"

text \<open>A mapping handle is a pointer: \<open>None\<close> is \<open>NULL\<close>. The argument \<open>t\<close> is the value of
  \<open>time (NULL)\<close>, which the function keeps in a \<open>u_int32_t\<close>.\<close>

definition pcp_mapping_remaining_lifetime_get :: "pcp_mapping option \<Rightarrow> time_t \<Rightarrow> u_int32_t" where
  "pcp_mapping_remaining_lifetime_get mapping t =
     (let now = (word_of_int t :: u_int32_t)
      in case mapping of
           None \<Rightarrow> 0
         | Some m \<Rightarrow> if end_of_life m \<le> now then 0 else end_of_life m - now)"

section \<open>Configuration and callbacks (api/pcp.c)\<close>

text \<open>
  The configuration keys below \<open>/pcp/config\<close> in the Apteryx database, as a map from key
  to stored integer. \<open>apteryx_get_int\<close> answers \<open>-1\<close> for a key that is not set.
\<close>

type_synonym config_db = "string \<rightharpoonup> c_int"

definition CONFIG_PATH :: string where
  "CONFIG_PATH = ''/pcp/config''"

definition PCP_INITIALIZED_KEY :: string where
  "PCP_INITIALIZED_KEY = ''pcp_initialized''"

definition PCP_ENABLED_KEY :: string where
  "PCP_ENABLED_KEY = ''pcp_enabled''"

definition MAP_SUPPORT_KEY :: string where
  "MAP_SUPPORT_KEY = ''map_support''"

definition PEER_SUPPORT_KEY :: string where
  "PEER_SUPPORT_KEY = ''peer_support''"

definition THIRD_PARTY_SUPPORT_KEY :: string where
  "THIRD_PARTY_SUPPORT_KEY = ''third_party_support''"

definition PROXY_SUPPORT_KEY :: string where
  "PROXY_SUPPORT_KEY = ''proxy_support''"

definition UPNP_IGD_PCP_IWF_SUPPORT_KEY :: string where
  "UPNP_IGD_PCP_IWF_SUPPORT_KEY = ''upnp_igd_pcp_iwf_support''"

definition MIN_MAPPING_LIFETIME_KEY :: string where
  "MIN_MAPPING_LIFETIME_KEY = ''min_mapping_lifetime''"

definition MAX_MAPPING_LIFETIME_KEY :: string where
  "MAX_MAPPING_LIFETIME_KEY = ''max_mapping_lifetime''"

definition PREFER_FAILURE_REQ_RATE_LIMIT_KEY :: string where
  "PREFER_FAILURE_REQ_RATE_LIMIT_KEY = ''prefer_failure_req_rate_limit''"

definition STARTUP_EPOCH_TIME_KEY :: string where
  "STARTUP_EPOCH_TIME_KEY = ''startup_epoch_time''"

definition apteryx_get_int :: "config_db \<Rightarrow> string \<Rightarrow> c_int" where
  "apteryx_get_int db key = (case db key of None \<Rightarrow> - 1 | Some v \<Rightarrow> v)"

definition apteryx_set_int :: "config_db \<Rightarrow> string \<Rightarrow> c_int \<Rightarrow> config_db" where
  "apteryx_set_int db key v = db(key \<mapsto> v)"

definition pcp_initialized_set :: "config_db \<Rightarrow> bool \<Rightarrow> config_db" where
  "pcp_initialized_set db enable = apteryx_set_int db PCP_INITIALIZED_KEY (of_bool enable)"

definition pcp_initialized_get :: "config_db \<Rightarrow> bool" where
  "pcp_initialized_get db = (apteryx_get_int db PCP_INITIALIZED_KEY = 1)"

definition pcp_enabled_set :: "config_db \<Rightarrow> bool \<Rightarrow> config_db" where
  "pcp_enabled_set db enable = apteryx_set_int db PCP_ENABLED_KEY (of_bool enable)"

definition pcp_enabled_get :: "config_db \<Rightarrow> bool" where
  "pcp_enabled_get db = (apteryx_get_int db PCP_ENABLED_KEY = 1)"

definition map_support_set :: "config_db \<Rightarrow> bool \<Rightarrow> config_db" where
  "map_support_set db enable = apteryx_set_int db MAP_SUPPORT_KEY (of_bool enable)"

definition map_support_get :: "config_db \<Rightarrow> bool" where
  "map_support_get db = (apteryx_get_int db MAP_SUPPORT_KEY = 1)"

definition peer_support_set :: "config_db \<Rightarrow> bool \<Rightarrow> config_db" where
  "peer_support_set db enable = apteryx_set_int db PEER_SUPPORT_KEY (of_bool enable)"

definition peer_support_get :: "config_db \<Rightarrow> bool" where
  "peer_support_get db = (apteryx_get_int db PEER_SUPPORT_KEY = 1)"

definition third_party_support_set :: "config_db \<Rightarrow> bool \<Rightarrow> config_db" where
  "third_party_support_set db enable = apteryx_set_int db THIRD_PARTY_SUPPORT_KEY (of_bool enable)"

definition third_party_support_get :: "config_db \<Rightarrow> bool" where
  "third_party_support_get db = (apteryx_get_int db THIRD_PARTY_SUPPORT_KEY = 1)"

definition proxy_support_set :: "config_db \<Rightarrow> bool \<Rightarrow> config_db" where
  "proxy_support_set db enable = apteryx_set_int db PROXY_SUPPORT_KEY (of_bool enable)"

definition proxy_support_get :: "config_db \<Rightarrow> bool" where
  "proxy_support_get db = (apteryx_get_int db PROXY_SUPPORT_KEY = 1)"

definition upnp_igd_pcp_iwf_support_set :: "config_db \<Rightarrow> bool \<Rightarrow> config_db" where
  "upnp_igd_pcp_iwf_support_set db enable =
     apteryx_set_int db UPNP_IGD_PCP_IWF_SUPPORT_KEY (of_bool enable)"

definition upnp_igd_pcp_iwf_support_get :: "config_db \<Rightarrow> bool" where
  "upnp_igd_pcp_iwf_support_get db = (apteryx_get_int db UPNP_IGD_PCP_IWF_SUPPORT_KEY = 1)"

definition min_mapping_lifetime_set :: "config_db \<Rightarrow> u_int32_t \<Rightarrow> config_db" where
  "min_mapping_lifetime_set db v = apteryx_set_int db MIN_MAPPING_LIFETIME_KEY v"

definition min_mapping_lifetime_get :: "config_db \<Rightarrow> u_int32_t" where
  "min_mapping_lifetime_get db = apteryx_get_int db MIN_MAPPING_LIFETIME_KEY"

definition max_mapping_lifetime_set :: "config_db \<Rightarrow> u_int32_t \<Rightarrow> config_db" where
  "max_mapping_lifetime_set db v = apteryx_set_int db MAX_MAPPING_LIFETIME_KEY v"

definition max_mapping_lifetime_get :: "config_db \<Rightarrow> u_int32_t" where
  "max_mapping_lifetime_get db = apteryx_get_int db MAX_MAPPING_LIFETIME_KEY"

definition prefer_failure_req_rate_limit_set :: "config_db \<Rightarrow> u_int32_t \<Rightarrow> config_db" where
  "prefer_failure_req_rate_limit_set db v = apteryx_set_int db PREFER_FAILURE_REQ_RATE_LIMIT_KEY v"

definition prefer_failure_req_rate_limit_get :: "config_db \<Rightarrow> u_int32_t" where
  "prefer_failure_req_rate_limit_get db = apteryx_get_int db PREFER_FAILURE_REQ_RATE_LIMIT_KEY"

definition startup_epoch_time_get :: "config_db \<Rightarrow> u_int32_t" where
  "startup_epoch_time_get db = apteryx_get_int db STARTUP_EPOCH_TIME_KEY"

text \<open>
  Modelled from the spec: the \<open>DEFAULT_...\<close> macros that \<open>config_set_default\<close> writes are
  defined in libpcp.h, which is not among the sources; they are the fields of this record,
  an argument of the functions that use them.
\<close>

record pcp_defaults =
  DEFAULT_MAP_SUPPORT :: bool
  DEFAULT_PEER_SUPPORT :: bool
  DEFAULT_THIRD_PARTY_SUPPORT :: bool
  DEFAULT_PROXY_SUPPORT :: bool
  DEFAULT_UPNP_IGD_PCP_IWF_SUPPORT :: bool
  DEFAULT_MIN_MAPPING_LIFETIME :: u_int32_t
  DEFAULT_MAX_MAPPING_LIFETIME :: u_int32_t
  DEFAULT_PREFER_FAILURE_REQ_RATE_LIMIT :: u_int32_t

definition config_set_default :: "pcp_defaults \<Rightarrow> config_db \<Rightarrow> bool \<times> config_db" where
  "config_set_default d db =
     (True,
      prefer_failure_req_rate_limit_set
        (max_mapping_lifetime_set
          (min_mapping_lifetime_set
            (upnp_igd_pcp_iwf_support_set
              (proxy_support_set
                (third_party_support_set
                  (peer_support_set
                    (map_support_set db (DEFAULT_MAP_SUPPORT d))
                    (DEFAULT_PEER_SUPPORT d))
                  (DEFAULT_THIRD_PARTY_SUPPORT d))
                (DEFAULT_PROXY_SUPPORT d))
              (DEFAULT_UPNP_IGD_PCP_IWF_SUPPORT d))
            (DEFAULT_MIN_MAPPING_LIFETIME d))
          (DEFAULT_MAX_MAPPING_LIFETIME d))
        (DEFAULT_PREFER_FAILURE_REQ_RATE_LIMIT d))"

text \<open>
  Modelled from the spec: \<open>pcp_callbacks\<close> is declared in libpcp.h, which is not among the
  sources. It is a struct of function pointers, one per configuration key, each of which
  may be \<open>NULL\<close> (\<open>None\<close>); the fields are those that api/pcp.c calls. A callback acts on the
  state \<open>'c\<close> of the program that registered it.
\<close>

record 'c pcp_callbacks =
  pcp_enabled :: "(bool \<Rightarrow> 'c \<Rightarrow> 'c) option"
  map_support :: "(bool \<Rightarrow> 'c \<Rightarrow> 'c) option"
  peer_support :: "(bool \<Rightarrow> 'c \<Rightarrow> 'c) option"
  third_party_support :: "(bool \<Rightarrow> 'c \<Rightarrow> 'c) option"
  proxy_support :: "(bool \<Rightarrow> 'c \<Rightarrow> 'c) option"
  upnp_igd_pcp_iwf_support :: "(bool \<Rightarrow> 'c \<Rightarrow> 'c) option"
  min_mapping_lifetime :: "(u_int32_t \<Rightarrow> 'c \<Rightarrow> 'c) option"
  max_mapping_lifetime :: "(u_int32_t \<Rightarrow> 'c \<Rightarrow> 'c) option"
  prefer_failure_req_rate_limit :: "(u_int32_t \<Rightarrow> 'c \<Rightarrow> 'c) option"
  startup_epoch_time :: "(u_int32_t \<Rightarrow> 'c \<Rightarrow> 'c) option"

text \<open>
  The state that the configuration functions share: the database, the static pointer
  \<open>saved_cbs\<close> (\<open>None\<close> is \<open>NULL\<close>, its initial value) and the state of the registering
  program. The mutex \<open>callback_lock\<close> is not modelled.
\<close>

record 'c pcp_state =
  config :: config_db
  saved_cbs :: "'c pcp_callbacks option"
  client :: 'c

datatype fault = NullPointerDereference

definition initial_state :: "config_db \<Rightarrow> 'c \<Rightarrow> 'c pcp_state" where
  "initial_state db c = \<lparr>config = db, saved_cbs = None, client = c\<rparr>"

definition pcp_register_cb :: "'c pcp_state \<Rightarrow> 'c pcp_callbacks option \<Rightarrow> bool \<times> 'c pcp_state" where
  "pcp_register_cb st cb = (True, st\<lparr>saved_cbs := cb\<rparr>)"

text \<open>\<open>if (cbs->f) cbs->f (v);\<close> for a callback table \<open>cbs\<close> that is there.\<close>

definition call_cb :: "('a \<Rightarrow> 'c \<Rightarrow> 'c) option \<Rightarrow> 'a \<Rightarrow> 'c \<Rightarrow> 'c" where
  "call_cb f v c = (case f of None \<Rightarrow> c | Some g \<Rightarrow> g v c)"

text \<open>
  \<open>pcp_load_config\<close> reads \<open>saved_cbs->pcp_enabled\<close> first when the database reports
  \<open>pcp_initialized\<close>: with \<open>saved_cbs = NULL\<close> that read is the fault.
\<close>

definition pcp_load_config ::
  "pcp_defaults \<Rightarrow> 'c pcp_state \<Rightarrow> fault + (bool \<times> 'c pcp_state)" where
  "pcp_load_config d st =
     (let db = config st
      in if pcp_initialized_get db
         then (case saved_cbs st of
                 None \<Rightarrow> Inl NullPointerDereference
               | Some cbs \<Rightarrow>
                   (let c1 = call_cb (pcp_enabled cbs) (pcp_enabled_get db) (client st);
                        c2 = call_cb (map_support cbs) (map_support_get db) c1;
                        c3 = call_cb (peer_support cbs) (peer_support_get db) c2;
                        c4 = call_cb (third_party_support cbs) (third_party_support_get db) c3;
                        c5 = call_cb (proxy_support cbs) (proxy_support_get db) c4;
                        c6 = call_cb (upnp_igd_pcp_iwf_support cbs)
                               (upnp_igd_pcp_iwf_support_get db) c5;
                        c7 = call_cb (min_mapping_lifetime cbs) (min_mapping_lifetime_get db) c6;
                        c8 = call_cb (max_mapping_lifetime cbs) (max_mapping_lifetime_get db) c7;
                        c9 = call_cb (prefer_failure_req_rate_limit cbs)
                               (prefer_failure_req_rate_limit_get db) c8
                    in Inr (True, st\<lparr>client := c9\<rparr>)))
         else (let (ret, db') =
                     config_set_default d (pcp_enabled_set (pcp_initialized_set db True) True)
               in Inr (ret, st\<lparr>config := db'\<rparr>)))"

text \<open>\<open>if (saved_cbs && saved_cbs->f) saved_cbs->f (v);\<close>, the guarded call of the watch
  functions.\<close>

definition guarded_cb ::
  "'c pcp_state \<Rightarrow> ('c pcp_callbacks \<Rightarrow> ('a \<Rightarrow> 'c \<Rightarrow> 'c) option) \<Rightarrow> 'a \<Rightarrow> 'c pcp_state" where
  "guarded_cb st f v =
     (case saved_cbs st of
        None \<Rightarrow> st
      | Some cbs \<Rightarrow> st\<lparr>client := call_cb (f cbs) v (client st)\<rparr>)"

text \<open>\<open>pcp_config_changed\<close>; the path may be \<open>NULL\<close>, the value is not read, and what the
  function prints is left out.\<close>

definition pcp_config_changed :: "'c pcp_state \<Rightarrow> string option \<Rightarrow> bool \<times> 'c pcp_state" where
  "pcp_config_changed st path =
     (case path of
        None \<Rightarrow> (False, st)
      | Some p \<Rightarrow>
          (let pre = CONFIG_PATH @ ''/''; db = config st
           in if take (length pre) p \<noteq> pre then (False, st)
              else (let key = drop (length pre) p
                    in if key = PCP_ENABLED_KEY
                       then (True, guarded_cb st pcp_enabled (pcp_enabled_get db))
                       else if key = MAP_SUPPORT_KEY
                       then (True, guarded_cb st map_support (map_support_get db))
                       else if key = PEER_SUPPORT_KEY
                       then (True, guarded_cb st peer_support (peer_support_get db))
                       else if key = THIRD_PARTY_SUPPORT_KEY
                       then (True, guarded_cb st third_party_support (third_party_support_get db))
                       else if key = PROXY_SUPPORT_KEY
                       then (True, guarded_cb st proxy_support (proxy_support_get db))
                       else if key = UPNP_IGD_PCP_IWF_SUPPORT_KEY
                       then (True, guarded_cb st upnp_igd_pcp_iwf_support
                                     (upnp_igd_pcp_iwf_support_get db))
                       else if key = MIN_MAPPING_LIFETIME_KEY
                       then (True, guarded_cb st min_mapping_lifetime (min_mapping_lifetime_get db))
                       else if key = MAX_MAPPING_LIFETIME_KEY
                       then (True, guarded_cb st max_mapping_lifetime (max_mapping_lifetime_get db))
                       else if key = PREFER_FAILURE_REQ_RATE_LIMIT_KEY
                       then (True, guarded_cb st prefer_failure_req_rate_limit
                                     (prefer_failure_req_rate_limit_get db))
                       else if key = STARTUP_EPOCH_TIME_KEY
                       then (True, guarded_cb st startup_epoch_time (startup_epoch_time_get db))
                       else if key \<noteq> PCP_INITIALIZED_KEY then (False, st)
                       else (True, st))))"

section \<open>The MAP request handler of the daemon\<close>

datatype result_code =
  SUCCESS | UNSUPP_VERSION | NOT_AUTHORIZED | MALFORMED_REQUEST | UNSUPP_OPCODE
| UNSUPP_OPTION | MALFORMED_OPTION | NETWORK_FAILURE | NO_RESOURCES | UNSUPP_PROTOCOL
| USER_EX_QUOTA | CANNOT_PROVIDE_EXTERNAL | ADDRESS_MISMATCH | EXCESSIVE_REMOTE_PEERS

text \<open>The packet structs of packets\_pcp.h. Field names carry the struct as a prefix where
  two structs share a name; the result code of a response header is kept as the
  enumeration value that is written into its byte.\<close>

record pcp_request_header =
  req_version :: u_int8_t
  req_r_opcode :: u_int8_t
  req_reserved :: u_int16_t
  requested_lifetime :: u_int32_t
  client_ip :: in6_addr

record pcp_response_header =
  resp_version :: u_int8_t
  resp_r_opcode :: u_int8_t
  resp_reserved :: u_int8_t
  resp_result_code :: result_code
  resp_lifetime :: u_int32_t
  epoch_time :: u_int32_t
  reserved_array :: "u_int32_t \<times> u_int32_t \<times> u_int32_t"

record map_request =
  mreq_header :: pcp_request_header
  mreq_mapping_nonce :: "u_int32_t \<times> u_int32_t \<times> u_int32_t"
  mreq_protocol :: u_int8_t
  mreq_reserved_1 :: u_int8_t
  mreq_reserved_2 :: u_int16_t
  mreq_internal_port :: u_int16_t
  suggested_external_port :: u_int16_t
  suggested_external_ip :: in6_addr

record map_response =
  mresp_header :: pcp_response_header
  mresp_mapping_nonce :: "u_int32_t \<times> u_int32_t \<times> u_int32_t"
  mresp_protocol :: u_int8_t
  mresp_reserved_1 :: u_int8_t
  mresp_reserved_2 :: u_int16_t
  mresp_internal_port :: u_int16_t
  assigned_external_port :: u_int16_t
  assigned_external_ip :: in6_addr

text \<open>
  Modelled from the spec: \<open>new_pcp_response_header\<close> is declared in packets\_pcp.h and
  defined in packets\_pcp.c, which is not among the sources. By sections 3 and 4.4 of the
  specification the header of a response carries the version, the opcode with the R bit
  set, the result code and the lifetime it is given, and the epoch time (here the
  argument \<open>epoch\<close>); reserved fields are zero.
\<close>

definition new_pcp_response_header ::
  "u_int32_t \<Rightarrow> u_int8_t \<Rightarrow> result_code \<Rightarrow> u_int32_t \<Rightarrow> pcp_response_header" where
  "new_pcp_response_header epoch opcode_arg result lifetime_arg =
     \<lparr>resp_version = PCP_VERSION,
      resp_r_opcode = R_RESPONSE opcode_arg,
      resp_reserved = 0,
      resp_result_code = result,
      resp_lifetime = lifetime_arg,
      epoch_time = epoch,
      reserved_array = (0, 0, 0)\<rparr>"

text \<open>
  Modelled from the spec: \<open>new_pcp_map_response\<close> is declared in packets\_pcp.h and defined
  in packets\_pcp.c, which is not among the sources. By section 4.4 (step 8) of the
  specification the response echoes nonce, protocol and internal port of the request and
  carries the assigned external port and address.
\<close>

definition new_pcp_map_response ::
  "u_int32_t \<Rightarrow> map_request \<Rightarrow> u_int32_t \<Rightarrow> result_code \<Rightarrow> u_int16_t \<Rightarrow> in6_addr \<Rightarrow> map_response" where
  "new_pcp_map_response epoch pcp_map_request lifetime_arg result port ipv6_addr =
     \<lparr>mresp_header = new_pcp_response_header epoch MAP_OPCODE result lifetime_arg,
      mresp_mapping_nonce = mreq_mapping_nonce pcp_map_request,
      mresp_protocol = mreq_protocol pcp_map_request,
      mresp_reserved_1 = 0,
      mresp_reserved_2 = 0,
      mresp_internal_port = mreq_internal_port pcp_map_request,
      assigned_external_port = port,
      assigned_external_ip = ipv6_addr\<rparr>"

text \<open>
  \<open>process_map_request\<close>, between \<open>deserialize_map_request\<close> and \<open>serialize_map_response\<close>
  (both in a file that is not among the sources): from the request struct to the response
  struct. The address is the value of the literal \<open>"80fe::2020:ff3b:2eef:3829"\<close>. The
  function has no access to the mapping store.
\<close>

definition process_map_request :: "u_int32_t \<Rightarrow> map_request \<Rightarrow> map_response" where
  "process_map_request epoch map_req =
     (let result = SUCCESS;
          lifetime_v = 9001;
          assigned_ext_port = 4321;
          assigned_ext_ip = 0x80fe0000000000002020ff3b2eef3829
      in new_pcp_map_response epoch map_req lifetime_v result assigned_ext_port assigned_ext_ip)"

section \<open>Predicates of the statements\<close>

text \<open>The lease equation of a stored mapping, in the 32-bit arithmetic of its fields.\<close>

definition lease_consistent :: "pcp_mapping \<Rightarrow> bool" where
  "lease_consistent m = (end_of_life m = start_of_life m + lifetime m)"

definition store_lease_consistent :: "mapping_store \<Rightarrow> bool" where
  "store_lease_consistent s = list_all (\<lambda>(k, row). lease_consistent row) s"

text \<open>The mappings of a list are in ascending order of \<open>index\<close>, read as a C \<open>int\<close>.\<close>

definition sorted_by_index :: "pcp_mapping list \<Rightarrow> bool" where
  "sorted_by_index ms = sorted (map (\<lambda>m. sint (index m)) ms)"

text \<open>No id of the store is negative.\<close>

definition ids_non_negative :: "mapping_store \<Rightarrow> bool" where
  "ids_non_negative s = list_all (\<lambda>(k, row). 0 \<le>s k) s"

section \<open>The R bit of the opcode byte\<close>

lemma bit_128_word8: "bit (128 :: u_int8_t) n = (n = 7)"
proof (cases "n < 8")
  case True
  then have "n \<in> {0, 1, 2, 3, 4, 5, 6, 7}" by auto
  then show ?thesis by (elim insertE emptyE; simp)
next
  case False
  then show ?thesis by (auto dest: bit_imp_le_length)
qed

lemma bit_R_REQUEST: "bit (R_REQUEST x) n = (bit x n \<and> n \<noteq> 7)"
proof -
  have "R_REQUEST x = x AND NOT 128" by (simp add: R_REQUEST_def)
  then show ?thesis
    using bit_imp_le_length [of x n]
    by (auto simp only: bit_and_iff bit_not_iff bit_128_word8 possible_bit_word)
qed

lemma bit_R_RESPONSE: "bit (R_RESPONSE x) n = (bit x n \<or> n = 7)"
proof -
  have "R_RESPONSE x = x OR 128" by (simp add: R_RESPONSE_def)
  then show ?thesis by (auto simp only: bit_or_iff bit_128_word8)
qed

lemma R_REQUEST_xor_R_RESPONSE: "R_REQUEST x XOR R_RESPONSE x = 128"
  by (rule bit_word_eqI)
     (auto simp only: bit_R_REQUEST bit_R_RESPONSE bit_128_word8 bit_xor_iff)

lemma take_bit_7_R:
  "take_bit 7 (R_REQUEST x) = take_bit 7 x" "take_bit 7 (R_RESPONSE x) = take_bit 7 x"
  by (rule bit_word_eqI, auto simp only: bit_R_REQUEST bit_R_RESPONSE bit_take_bit_iff)+

text \<open>
  C8. For every opcode byte, \<open>R_REQUEST\<close> is the byte with bit 7 (the R bit) cleared and
  \<open>R_RESPONSE\<close> is the byte with bit 7 set: every other bit is that of the opcode, so the
  two forms agree on the seven bits of the opcode number and differ in the R bit and
  nowhere else. With \<open>MAP_OPCODE = 1\<close> and \<open>PEER_OPCODE = 2\<close> the request bytes are 1 and 2
  and the response bytes are 129 and 130.
\<close>

theorem R_bit_request_response:
  "R_REQUEST x = unset_bit 7 x \<and> R_RESPONSE x = set_bit 7 x \<and>
   \<not> bit (R_REQUEST x) 7 \<and> bit (R_RESPONSE x) 7 \<and>
   take_bit 7 (R_REQUEST x) = take_bit 7 x \<and> take_bit 7 (R_RESPONSE x) = take_bit 7 x \<and>
   R_REQUEST x XOR R_RESPONSE x = push_bit 7 1 \<and>
   MAP_OPCODE = 1 \<and> PEER_OPCODE = 2 \<and>
   R_REQUEST MAP_OPCODE = 1 \<and> R_RESPONSE MAP_OPCODE = 129 \<and>
   R_REQUEST PEER_OPCODE = 2 \<and> R_RESPONSE PEER_OPCODE = 130"
proof -
  have req: "R_REQUEST x = unset_bit 7 x"
    by (simp only: R_REQUEST_def unset_bit_eq_and_not)
  have resp: "R_RESPONSE x = set_bit 7 x"
    by (simp only: R_RESPONSE_def set_bit_eq_or)
  have bits: "\<not> bit (R_REQUEST x) 7" "bit (R_RESPONSE x) 7"
    by (simp_all add: bit_R_REQUEST bit_R_RESPONSE)
  have low: "take_bit 7 (R_REQUEST x) = take_bit 7 x" "take_bit 7 (R_RESPONSE x) = take_bit 7 x"
    by (fact take_bit_7_R)+
  have differ: "R_REQUEST x XOR R_RESPONSE x = push_bit 7 1"
    by (simp add: R_REQUEST_xor_R_RESPONSE)
  have numbers: "MAP_OPCODE = 1" "PEER_OPCODE = 2"
    by (simp_all add: MAP_OPCODE_def PEER_OPCODE_def)
  have bytes: "R_REQUEST MAP_OPCODE = 1" "R_RESPONSE MAP_OPCODE = 129"
      "R_REQUEST PEER_OPCODE = 2" "R_RESPONSE PEER_OPCODE = 130"
    by (simp_all add: R_REQUEST_def R_RESPONSE_def MAP_OPCODE_def PEER_OPCODE_def)
  from req resp bits low differ numbers bytes show ?thesis
    by (intro conjI)
qed

section \<open>Remaining lifetime\<close>

lemma uint_clock_in_range:
  "0 \<le> t \<Longrightarrow> t < 4294967296 \<Longrightarrow> uint (word_of_int t :: u_int32_t) = t"
  by (simp only: uint_word_of_int) simp

text \<open>
  C6. For a mapping with end of life \<open>e\<close> and a query at clock value \<open>t\<close>, which the
  function holds as the 32-bit \<open>now\<close>, \<open>pcp_mapping_remaining_lifetime_get\<close> returns
  \<open>max 0 (e - now)\<close>, which is \<open>max 0 (e - t)\<close> for every clock value that fits 32 bits: it
  returns 0 when \<open>e \<le> now\<close>, it returns \<open>e - now\<close> when \<open>now < e\<close>, and the result is
  never negative.
\<close>

theorem remaining_lifetime_get_max:
  "uint (pcp_mapping_remaining_lifetime_get (Some m) t)
     = max 0 (uint (end_of_life m) - uint (word_of_int t :: u_int32_t)) \<and>
   (0 \<le> t \<and> t < 4294967296 \<longrightarrow>
      uint (pcp_mapping_remaining_lifetime_get (Some m) t) = max 0 (uint (end_of_life m) - t)) \<and>
   (end_of_life m \<le> word_of_int t \<longrightarrow> pcp_mapping_remaining_lifetime_get (Some m) t = 0) \<and>
   (word_of_int t < end_of_life m \<longrightarrow>
      pcp_mapping_remaining_lifetime_get (Some m) t = end_of_life m - word_of_int t) \<and>
   0 \<le> uint (pcp_mapping_remaining_lifetime_get (Some m) t)"
proof -
  have main: "uint (pcp_mapping_remaining_lifetime_get (Some m) t)
     = max 0 (uint (end_of_life m) - uint (word_of_int t :: u_int32_t))"
    by (auto simp add: pcp_mapping_remaining_lifetime_get_def Let_def word_le_def word_less_def
        uint_sub_if_size word_size max_def)
  have branches:
    "end_of_life m \<le> word_of_int t \<longrightarrow> pcp_mapping_remaining_lifetime_get (Some m) t = 0"
    "word_of_int t < end_of_life m \<longrightarrow>
      pcp_mapping_remaining_lifetime_get (Some m) t = end_of_life m - word_of_int t"
    by (auto simp add: pcp_mapping_remaining_lifetime_get_def Let_def)
  from main branches show ?thesis
    by (simp add: uint_clock_in_range)
qed

theorem remaining_lifetime_get_max_witness:
  "(0 :: int) \<le> 1090 \<and> (1090 :: int) < 4294967296 \<and>
   (1090 :: u_int32_t) < 1120 \<and> (1120 :: u_int32_t) \<le> 1150 \<and>
   pcp_mapping_remaining_lifetime_get
     (Some \<lparr>index = 10, mapping_nonce = (1, 2, 3), internal_ip = 5, internal_port = 4000,
            external_ip = 6, external_port = 4001, lifetime = 120, start_of_life = 1000,
            end_of_life = 1120, opcode = 1, protocol = 6\<rparr>) 1090 = 30 \<and>
   pcp_mapping_remaining_lifetime_get
     (Some \<lparr>index = 10, mapping_nonce = (1, 2, 3), internal_ip = 5, internal_port = 4000,
            external_ip = 6, external_port = 4001, lifetime = 120, start_of_life = 1000,
            end_of_life = 1120, opcode = 1, protocol = 6\<rparr>) 1150 = 0"
  using
    remaining_lifetime_get_max [of "\<lparr>index = 10, mapping_nonce = (1, 2, 3), internal_ip = 5,
        internal_port = 4000, external_ip = 6, external_port = 4001, lifetime = 120,
        start_of_life = 1000, end_of_life = 1120, opcode = 1, protocol = 6\<rparr>" 1090]
    remaining_lifetime_get_max [of "\<lparr>index = 10, mapping_nonce = (1, 2, 3), internal_ip = 5,
        internal_port = 4000, external_ip = 6, external_port = 4001, lifetime = 120,
        start_of_life = 1000, end_of_life = 1120, opcode = 1, protocol = 6\<rparr>" 1150]
  by simp

text \<open>
  C10. For the null mapping handle \<open>pcp_mapping_remaining_lifetime_get\<close> returns 0, at any
  clock value: the handle is tested before \<open>end_of_life\<close> is read, so the function has a
  result for every handle.
\<close>

theorem remaining_lifetime_get_null:
  "pcp_mapping_remaining_lifetime_get None t = 0"
  by (simp add: pcp_mapping_remaining_lifetime_get_def)

section \<open>The identifier allocator\<close>

lemma sint_c_int_of_int:
  "- 2147483648 \<le> k \<Longrightarrow> k \<le> 2147483647 \<Longrightarrow> sint (word_of_int k :: c_int) = k"
  by (simp add: sint_sbintrunc' signed_take_bit_int_eq_self)

lemma sint_c_int_range: "- 2147483648 \<le> sint (x :: c_int) \<and> sint x \<le> 2147483647"
  using sint_ge [of x] sint_lt [of x] by simp

lemma foldl_highest:
  fixes rows :: "pcp_mapping list"
  defines "f \<equiv> (\<lambda>max row. let index_id = index row in if max <s index_id then index_id else max)"
  shows "sint acc \<le> sint (foldl f acc rows) \<and>
         (\<forall>row \<in> set rows. sint (index row) \<le> sint (foldl f acc rows)) \<and>
         (foldl f acc rows = acc \<or> foldl f acc rows \<in> index ` set rows)"
proof (induction rows arbitrary: acc)
  case Nil
  then show ?case by simp
next
  case (Cons r rows)
  show ?case
    using Cons.IH [of "f acc r"]
    by (auto simp add: f_def Let_def word_sless_alt split: if_splits)
qed

lemma current_highest_index_Max:
  "sint (current_highest_index s) = Max (insert 0 ((\<lambda>(k, row). sint (index row)) ` set s))"
proof -
  let ?f = "\<lambda>max row. let index_id = index row in if max <s index_id then index_id else max"
  let ?r = "foldl ?f 0 (map snd s)"
  have p: "sint (0 :: c_int) \<le> sint ?r"
      "\<forall>row \<in> set (map snd s). sint (index row) \<le> sint ?r"
      "?r = 0 \<or> ?r \<in> index ` set (map snd s)"
    using foldl_highest [of 0 "map snd s"] by blast+
  have "Max (insert 0 ((\<lambda>(k, row). sint (index row)) ` set s)) = sint ?r"
  proof (rule Max_eqI)
    show "finite (insert 0 ((\<lambda>(k, row). sint (index row)) ` set s))" by simp
    show "y \<le> sint ?r" if "y \<in> insert 0 ((\<lambda>(k, row). sint (index row)) ` set s)" for y
      using that p(1,2) by auto
    show "sint ?r \<in> insert 0 ((\<lambda>(k, row). sint (index row)) ` set s)"
      using p(3) by (auto simp add: image_iff)
  qed
  then show ?thesis by (simp add: current_highest_index_def)
qed

lemma c_rem_10_nonneg:
  assumes "0 \<le> sint x"
  shows "sint (c_rem x 10) = sint x mod 10"
proof -
  have "sint x smod 10 = sint x mod 10"
    using assms by (simp add: signed_modulo_int_def sgn_if)
  then show ?thesis
    unfolding c_rem_def by (simp add: sint_c_int_of_int)
qed

lemma next_highest_id_in_range:
  assumes "sint (current_highest_index s) \<le> 2147483636"
  defines "k \<equiv> sint (current_highest_index s)"
  defines "candidate \<equiv> (k + 11) - (k + 11) mod 10"
  shows "sint (next_highest_id maximum_mapping_id s)
           = (if sint maximum_mapping_id < candidate then - 1 else candidate)"
    and "candidate mod 10 = 0" and "k < candidate"
proof -
  have k0: "0 \<le> k"
    unfolding k_def current_highest_index_Max by (simp add: Max_ge)
  have a: "sint (current_highest_index s + 11) = k + 11"
    using k0 assms(1) unfolding k_def
    by (simp add: sint_word_ariths signed_take_bit_int_eq_self)
  have r: "sint (c_rem (current_highest_index s + 11) 10) = (k + 11) mod 10"
    using c_rem_10_nonneg [of "current_highest_index s + 11"] a k0 by simp
  have c: "sint (current_highest_index s + 11 - c_rem (current_highest_index s + 11) 10) = candidate"
    using k0 assms(1) unfolding candidate_def
    by (simp add: sint_word_ariths a r signed_take_bit_int_eq_self k_def)
  show "sint (next_highest_id maximum_mapping_id s)
           = (if sint maximum_mapping_id < candidate then - 1 else candidate)"
    by (simp add: next_highest_id_def Let_def word_sless_alt c)
  show "candidate mod 10 = 0" unfolding candidate_def by presburger
  show "k < candidate" unfolding candidate_def by presburger
qed

text \<open>
  C1. The allocator is to return the multiple of ten \<open>(max + 11) - (max + 11) mod 10\<close>,
  strictly above the greatest live id \<open>max\<close>, or to fail with \<open>-1\<close> when that value exceeds
  \<open>MAXIMUM_MAPPING_ID\<close>. With the default ceiling \<open>INT_MAX\<close> and the live id 2147483640
  (a mapping added under that index) the value is 2147483650, above the ceiling; the sum
  \<open>max_index + 11\<close> leaves the range of \<open>int\<close>, the comparison with \<open>INT_MAX\<close> cannot hold,
  and \<open>next_mapping_id\<close> returns -2147483640: neither \<open>-1\<close> nor an id above the live one.
  Lemma \<open>next_highest_id_in_range\<close> gives the stated result for every store whose
  greatest id is at most \<open>INT_MAX - 11\<close>.
\<close>

theorem next_mapping_id_overflow:
  "apteryx_search
     (snd (pcp_mapping_add MAXIMUM_MAPPING_ID [] 1700000000 1700000000 2147483640 (1, 2, 3)
             5 4000 6 4001 120 1 6)) = [2147483640] \<and>
   sint (current_highest_index
     (snd (pcp_mapping_add MAXIMUM_MAPPING_ID [] 1700000000 1700000000 2147483640 (1, 2, 3)
             5 4000 6 4001 120 1 6))) = 2147483640 \<and>
   sint (next_mapping_id MAXIMUM_MAPPING_ID
     (snd (pcp_mapping_add MAXIMUM_MAPPING_ID [] 1700000000 1700000000 2147483640 (1, 2, 3)
             5 4000 6 4001 120 1 6))) = - 2147483640"
  by (simp add: next_mapping_id_def next_highest_id_def current_highest_index_def
      pcp_mapping_add_def pcp_mapping_find_def MAXIMUM_MAPPING_ID_def INT_MAX_def c_rem_def
      signed_modulo_int_def Let_def word_sless_alt apteryx_search_def)

section \<open>Refreshing a lifetime\<close>

lemma map_of_refresh_rows:
  "map_of (map (\<lambda>(k, row). if k = idx then (k, g row) else (k, row)) s) j
     = (if j = idx then map_option g (map_of s j) else map_of s j)"
  by (induction s) auto

lemma map_fst_refresh_rows:
  "map fst (map (\<lambda>(k, row). if k = idx then (k, g row) else (k, row)) s) = map fst s"
  by (induction s) auto

lemma refresh_lifetime_fails_unchanged:
  "\<not> fst (pcp_mapping_refresh_lifetime s t idx l e) \<Longrightarrow>
     snd (pcp_mapping_refresh_lifetime s t idx l e) = s"
  by (auto simp add: pcp_mapping_refresh_lifetime_def Let_def split: option.splits if_splits)

lemma refresh_lifetime_success_iff:
  "fst (pcp_mapping_refresh_lifetime s t idx l e) \<longleftrightarrow>
     pcp_mapping_find s idx \<noteq> None \<and>
     \<not> (e < word_of_int (t + uint l) - 3 \<or> word_of_int (t + uint l) + 3 < e)"
  by (auto simp add: pcp_mapping_refresh_lifetime_def Let_def split: option.splits if_splits)

lemma tolerance_in_range:
  fixes e x :: u_int32_t
  assumes "3 \<le> uint x" "uint x \<le> 4294967292"
  shows "\<not> (e < x - 3 \<or> x + 3 < e) \<longleftrightarrow> \<bar>uint e - uint x\<bar> \<le> 3"
proof -
  have a: "uint (x - 3) = uint x - 3"
    using assms by (simp add: uint_sub_if_size word_size)
  have b: "uint (x + 3) = uint x + 3"
    using assms by (simp add: uint_plus_if_size word_size)
  show ?thesis
    unfolding word_less_def a b by auto
qed

lemma refresh_lifetime_in_range:
  assumes "3 \<le> t + uint l" "t + uint l \<le> 4294967292"
  shows "fst (pcp_mapping_refresh_lifetime s t idx l e) \<longleftrightarrow>
           pcp_mapping_find s idx \<noteq> None \<and> \<bar>uint e - (t + uint l)\<bar> \<le> 3"
proof -
  define x :: u_int32_t where "x = word_of_int (t + uint l)"
  have "uint x = (t + uint l) mod 2 ^ 32"
    unfolding x_def by (simp only: uint_word_of_int) simp
  then have u: "uint x = t + uint l"
    using assms by simp
  have "\<not> (e < x - 3 \<or> x + 3 < e) \<longleftrightarrow> \<bar>uint e - uint x\<bar> \<le> 3"
    by (rule tolerance_in_range) (use u assms in simp_all)
  then show ?thesis
    unfolding refresh_lifetime_success_iff x_def [symmetric] u by simp
qed

lemma refresh_lifetime_success_find:
  assumes "fst (pcp_mapping_refresh_lifetime s t idx l e)" "pcp_mapping_find s idx = Some m"
  shows "pcp_mapping_find (snd (pcp_mapping_refresh_lifetime s t idx l e)) j
           = (if j = idx then Some (m\<lparr>lifetime := l, end_of_life := e\<rparr>) else pcp_mapping_find s j)"
  using assms
  by (auto simp add: pcp_mapping_refresh_lifetime_def Let_def pcp_mapping_find_def map_of_refresh_rows
      split: option.splits if_splits)

text \<open>
  C2. A refresh is to succeed exactly when the mapping exists and the expected end of life
  is within 3 seconds of \<open>now + lifetime\<close>. At \<open>now = 1700000000\<close>, for the existing
  mapping 10, the lifetime 2594967293 and the end of life 4294967293 (which is
  \<open>now + lifetime\<close> itself) the call fails and leaves the store as it was: \<open>expected + 3\<close>
  wraps around to 0 in \<open>u_int32_t\<close>, so the second comparison of the sanity check holds.
  Lemma \<open>refresh_lifetime_in_range\<close> gives the stated equivalence whenever
  \<open>3 \<le> now + lifetime \<le> 2^32 - 4\<close>, and \<open>refresh_lifetime_success_find\<close> the fields
  stored on success.
\<close>

theorem refresh_lifetime_wraps:
  "pcp_mapping_find
     (snd (pcp_mapping_add MAXIMUM_MAPPING_ID [] 1700000000 1700000000 10 (1, 2, 3)
             5 4000 6 4001 120 1 6)) 10 \<noteq> None \<and>
   \<bar>uint (4294967293 :: u_int32_t) - (1700000000 + uint (2594967293 :: u_int32_t))\<bar> \<le> 3 \<and>
   pcp_mapping_refresh_lifetime
     (snd (pcp_mapping_add MAXIMUM_MAPPING_ID [] 1700000000 1700000000 10 (1, 2, 3)
             5 4000 6 4001 120 1 6))
     1700000000 10 2594967293 4294967293
   = (False,
      snd (pcp_mapping_add MAXIMUM_MAPPING_ID [] 1700000000 1700000000 10 (1, 2, 3)
             5 4000 6 4001 120 1 6))"
  by (simp add: pcp_mapping_refresh_lifetime_def pcp_mapping_add_def pcp_mapping_find_def Let_def)

section \<open>Creating a mapping\<close>

lemma pcp_mapping_find_append_new:
  "pcp_mapping_find s k = None \<Longrightarrow>
     pcp_mapping_find (s @ [(k, row)]) j
       = (if j = k then Some (row\<lparr>index := k\<rparr>) else pcp_mapping_find s j)"
  by (auto simp add: pcp_mapping_find_def map_add_def split: option.splits)

lemma pcp_mapping_find_None_iff: "pcp_mapping_find s k = None \<longleftrightarrow> map_of s k = None"
  by (simp add: pcp_mapping_find_def split: option.splits)

lemma pcp_mapping_find_None_notin: "pcp_mapping_find s k = None \<longleftrightarrow> k \<notin> fst ` set s"
  by (simp add: pcp_mapping_find_None_iff map_of_eq_None_iff)

text \<open>
  What \<open>pcp_mapping_add\<close> does, for every store and every argument list. It takes its
  index from the allocator \<open>next_mapping_id\<close> over the current store when the index
  argument is \<open>-1\<close>, and from the argument otherwise. When that index names a live mapping
  the call returns false and the store is unchanged (as it is after every failed call). A
  call that returns true has appended one mapping under that index, whose \<open>start_of_life\<close>
  is the first clock value and whose \<open>end_of_life\<close> is the second clock value plus the
  lifetime, both as 32-bit values. Every other mapping is found as before. The call
  succeeds exactly when the index is free and the allocator did not answer a negative id.
\<close>

lemma pcp_mapping_add_create:
  fixes index_arg mx :: c_int and s :: mapping_store and t_start t_end :: time_t
    and nonce :: "u_int32_t \<times> u_int32_t \<times> u_int32_t" and int_ip ext_ip :: in6_addr
    and int_port ext_port :: u_int16_t and lt :: u_int32_t and opc proto :: u_int8_t
  defines "idx \<equiv> (if index_arg = - 1 then next_mapping_id mx s else index_arg)"
  defines "r \<equiv> pcp_mapping_add mx s t_start t_end index_arg nonce int_ip int_port ext_ip ext_port lt opc proto"
  shows "(fst r \<longleftrightarrow> pcp_mapping_find s idx = None \<and> \<not> (index_arg = - 1 \<and> idx <s 0)) \<and>
     (pcp_mapping_find s idx \<noteq> None \<longrightarrow> r = (False, s)) \<and>
     (\<not> fst r \<longrightarrow> snd r = s) \<and>
     (fst r \<longrightarrow>
        snd r = s @ [(idx, \<lparr>index = idx, mapping_nonce = nonce, internal_ip = int_ip,
                    internal_port = int_port, external_ip = ext_ip, external_port = ext_port,
                    lifetime = lt, start_of_life = word_of_int t_start,
                    end_of_life = word_of_int t_end + lt, opcode = opc, protocol = proto\<rparr>)] \<and>
        pcp_mapping_find (snd r) idx
          = Some \<lparr>index = idx, mapping_nonce = nonce, internal_ip = int_ip,
                    internal_port = int_port, external_ip = ext_ip, external_port = ext_port,
                    lifetime = lt, start_of_life = word_of_int t_start,
                    end_of_life = word_of_int t_end + lt, opcode = opc, protocol = proto\<rparr> \<and>
        (\<forall>j. j \<noteq> idx \<longrightarrow> pcp_mapping_find (snd r) j = pcp_mapping_find s j))"
proof -
  let ?row = "\<lparr>index = idx, mapping_nonce = nonce, internal_ip = int_ip,
                    internal_port = int_port, external_ip = ext_ip, external_port = ext_port,
                    lifetime = lt, start_of_life = word_of_int t_start,
                    end_of_life = word_of_int t_end + lt, opcode = opc, protocol = proto\<rparr>"
  have eol: "(word_of_int (t_end + uint lt) :: u_int32_t) = word_of_int t_end + lt"
    by simp
  have r_eq: "r = (if index_arg = - 1 \<and> idx <s 0 then (False, s)
                   else (case pcp_mapping_find s idx of
                           Some mapping \<Rightarrow> (False, s)
                         | None \<Rightarrow> (True, s @ [(idx, ?row)])))"
    unfolding r_def idx_def pcp_mapping_add_def Let_def eol by (rule refl)
  show ?thesis
  proof (cases "pcp_mapping_find s idx")
    case None
    then show ?thesis
      by (simp add: r_eq pcp_mapping_find_append_new)
  next
    case (Some a)
    then show ?thesis
      by (simp add: r_eq)
  qed
qed


lemma pcp_mapping_add_create_example:
  "fst (pcp_mapping_add MAXIMUM_MAPPING_ID [] 1000 1000 (- 1) (1, 2, 3) 5 4000 6 4001 120 1 6) \<and>
   pcp_mapping_find
     (snd (pcp_mapping_add MAXIMUM_MAPPING_ID [] 1000 1000 (- 1) (1, 2, 3) 5 4000 6 4001 120 1 6)) 10
     = Some \<lparr>index = 10, mapping_nonce = (1, 2, 3), internal_ip = 5, internal_port = 4000,
             external_ip = 6, external_port = 4001, lifetime = 120, start_of_life = 1000,
             end_of_life = 1120, opcode = 1, protocol = 6\<rparr> \<and>
   pcp_mapping_find
     [(10, \<lparr>index = 10, mapping_nonce = (1, 2, 3), internal_ip = 5, internal_port = 4000,
             external_ip = 6, external_port = 4001, lifetime = 120, start_of_life = 1000,
             end_of_life = 1120, opcode = 1, protocol = 6\<rparr>)] 10 \<noteq> None \<and>
   pcp_mapping_add MAXIMUM_MAPPING_ID
     [(10, \<lparr>index = 10, mapping_nonce = (1, 2, 3), internal_ip = 5, internal_port = 4000,
             external_ip = 6, external_port = 4001, lifetime = 120, start_of_life = 1000,
             end_of_life = 1120, opcode = 1, protocol = 6\<rparr>)]
     2000 2000 10 (4, 5, 6) 7 5000 8 5001 60 1 17
   = (False,
      [(10, \<lparr>index = 10, mapping_nonce = (1, 2, 3), internal_ip = 5, internal_port = 4000,
             external_ip = 6, external_port = 4001, lifetime = 120, start_of_life = 1000,
             end_of_life = 1120, opcode = 1, protocol = 6\<rparr>)])"
proof -
  let ?s = "[(10, \<lparr>index = 10, mapping_nonce = (1, 2, 3), internal_ip = 5, internal_port = 4000,
             external_ip = 6, external_port = 4001, lifetime = 120, start_of_life = 1000,
             end_of_life = 1120, opcode = 1, protocol = 6\<rparr>)] :: mapping_store"
  have n: "next_mapping_id MAXIMUM_MAPPING_ID [] = 10"
    by (simp add: next_mapping_id_def next_highest_id_def current_highest_index_def
        MAXIMUM_MAPPING_ID_def INT_MAX_def c_rem_def signed_modulo_int_def Let_def word_sless_alt)
  have f0: "pcp_mapping_find [] 10 = None"
    by (simp add: pcp_mapping_find_def)
  have f1: "pcp_mapping_find ?s 10 \<noteq> None"
    by (simp add: pcp_mapping_find_def)
  have neg: "\<not> (10 :: c_int) <s 0"
    by (simp add: word_sless_alt)
  show ?thesis
    using
      pcp_mapping_add_create [where index_arg = "- 1" and mx = MAXIMUM_MAPPING_ID and s = "[]" and t_start = 1000
        and t_end = 1000 and nonce = "(1, 2, 3)" and int_ip = 5 and int_port = 4000
        and ext_ip = 6 and ext_port = 4001 and lt = 120 and opc = 1 and proto = 6]
      pcp_mapping_add_create [where index_arg = 10 and mx = MAXIMUM_MAPPING_ID and s = ?s and t_start = 2000
        and t_end = 2000 and nonce = "(4, 5, 6)" and int_ip = 7 and int_port = 5000
        and ext_ip = 8 and ext_port = 5001 and lt = 60 and opc = 1 and proto = 17]
      n f0 f1 neg
    by auto
qed

text \<open>The two timestamps of a mapping just added satisfy
  \<open>end_of_life = start_of_life + lifetime\<close> exactly when the two clock values agree in
  their low 32 bits.\<close>

lemma pcp_mapping_add_lease_iff:
  assumes "fst (pcp_mapping_add mx s t_start t_end index_arg nonce int_ip int_port ext_ip ext_port
                  lt opc proto)"
    and "pcp_mapping_find
           (snd (pcp_mapping_add mx s t_start t_end index_arg nonce int_ip int_port ext_ip ext_port
                   lt opc proto))
           (if index_arg = - 1 then next_mapping_id mx s else index_arg) = Some m"
  shows "start_of_life m = word_of_int t_start"
    and "end_of_life m = word_of_int t_end + lt"
    and "end_of_life m = start_of_life m + lifetime m
           \<longleftrightarrow> (word_of_int t_start :: u_int32_t) = word_of_int t_end"
proof -
  have m: "m = \<lparr>index = (if index_arg = - 1 then next_mapping_id mx s else index_arg),
                 mapping_nonce = nonce, internal_ip = int_ip,
                 internal_port = int_port, external_ip = ext_ip, external_port = ext_port,
                 lifetime = lt, start_of_life = word_of_int t_start,
                 end_of_life = word_of_int t_end + lt, opcode = opc, protocol = proto\<rparr>"
    using pcp_mapping_add_create [of mx s t_start t_end index_arg nonce int_ip int_port ext_ip
        ext_port lt opc proto] assms
    by simp
  show "start_of_life m = word_of_int t_start" by (simp add: m)
  show "end_of_life m = word_of_int t_end + lt" by (simp add: m)
  show "end_of_life m = start_of_life m + lifetime m
           \<longleftrightarrow> (word_of_int t_start :: u_int32_t) = word_of_int t_end"
    by (auto simp add: m)
qed

text \<open>
  C5. A successful \<open>pcp_mapping_add\<close> is to store \<open>start_of_life = now\<close> and
  \<open>end_of_life = now + lifetime\<close>, for one clock value \<open>now\<close>. The function calls
  \<open>time (NULL)\<close> once for each of the two fields. When the clock moves from 1000 to 1001
  between the two calls, the mapping added under index 10 with lifetime 120 is stored with
  \<open>start_of_life = 1000\<close> and \<open>end_of_life = 1121\<close>: no single \<open>now\<close> gives both. The
  rest of the claim (the index from the allocator on \<open>-1\<close>, the failed call on a live
  index, the store unchanged by it) is what lemma \<open>pcp_mapping_add_create\<close> shows.
\<close>

theorem pcp_mapping_add_clock_tick:
  "pcp_mapping_add MAXIMUM_MAPPING_ID [] 1000 1001 10 (1, 2, 3) 5 4000 6 4001 120 1 6
     = (True,
        [(10, \<lparr>index = 10, mapping_nonce = (1, 2, 3), internal_ip = 5, internal_port = 4000,
               external_ip = 6, external_port = 4001, lifetime = 120, start_of_life = 1000,
               end_of_life = 1121, opcode = 1, protocol = 6\<rparr>)]) \<and>
   (1121 :: u_int32_t) \<noteq> 1000 + 120"
  by (simp add: pcp_mapping_add_def pcp_mapping_find_def Let_def)

section \<open>The paths of the store stay distinct\<close>

text \<open>The database holds one node per path; the operations keep it so.\<close>

lemma apteryx_search_refresh_rows:
  "apteryx_search (map (\<lambda>(k, row). if k = idx then (k, g row) else (k, row)) s)
     = apteryx_search s"
  unfolding apteryx_search_def by (rule map_fst_refresh_rows)

lemma paths_distinct_preserved:
  assumes "distinct (apteryx_search s)"
  shows "distinct (apteryx_search
           (snd (pcp_mapping_add mx s t_start t_end index_arg nonce int_ip int_port ext_ip ext_port
                   lt opc proto)))"
    and "distinct (apteryx_search (snd (pcp_mapping_refresh_lifetime s t idx l e)))"
    and "distinct (apteryx_search (snd (pcp_mapping_delete s idx)))"
    and "distinct (apteryx_search (snd (pcp_mapping_deleteall s)))"
proof -
  show "distinct (apteryx_search
           (snd (pcp_mapping_add mx s t_start t_end index_arg nonce int_ip int_port ext_ip ext_port
                   lt opc proto)))"
    using assms
    by (simp add: pcp_mapping_add_def Let_def apteryx_search_def pcp_mapping_find_None_notin
        split: option.splits)
  show "distinct (apteryx_search (snd (pcp_mapping_refresh_lifetime s t idx l e)))"
    using assms
    by (simp add: pcp_mapping_refresh_lifetime_def Let_def apteryx_search_refresh_rows
        split: option.splits)
  show "distinct (apteryx_search (snd (pcp_mapping_delete s idx)))"
    using assms
    by (simp add: pcp_mapping_delete_def apteryx_search_def distinct_map_filter
        split: option.splits)
  show "distinct (apteryx_search (snd (pcp_mapping_deleteall s)))"
    by (simp add: pcp_mapping_deleteall_def apteryx_search_def)
qed

section \<open>The lease equation\<close>

lemma slc_append:
  "store_lease_consistent (s @ [(k, row)]) \<longleftrightarrow> store_lease_consistent s \<and> lease_consistent row"
  by (simp add: store_lease_consistent_def)

lemma slc_filter: "store_lease_consistent s \<Longrightarrow> store_lease_consistent (filter P s)"
  by (induction s) (auto simp add: store_lease_consistent_def)

lemma slc_refresh_rows:
  assumes "distinct (map fst s)" "map_of s idx = Some m0" "store_lease_consistent s"
  shows "store_lease_consistent (map (\<lambda>(k, row). if k = idx then (k, g row) else (k, row)) s)
           \<longleftrightarrow> lease_consistent (g m0)"
proof -
  have mem: "(idx, m0) \<in> set s"
    using assms(2) by (rule map_of_SomeD)
  have uniq: "row = m0" if "(idx, row) \<in> set s" for row
    using that assms(1,2) by (simp add: map_of_eq_Some_iff)
  have "store_lease_consistent (map (\<lambda>(k, row). if k = idx then (k, g row) else (k, row)) s)
          \<longleftrightarrow> (\<forall>(k, row) \<in> set s. if k = idx then lease_consistent (g row) else lease_consistent row)"
    by (auto simp add: store_lease_consistent_def list_all_iff split: if_splits)
  also have "\<dots> \<longleftrightarrow> lease_consistent (g m0)"
  proof
    assume "\<forall>(k, row) \<in> set s. if k = idx then lease_consistent (g row) else lease_consistent row"
    then show "lease_consistent (g m0)" using mem by fastforce
  next
    assume r: "lease_consistent (g m0)"
    show "\<forall>(k, row) \<in> set s. if k = idx then lease_consistent (g row) else lease_consistent row"
    proof (clarify)
      fix k row
      assume i: "(k, row) \<in> set s"
      show "if k = idx then lease_consistent (g row) else lease_consistent row"
      proof (cases "k = idx")
        case True
        with i have "row = m0" by (simp add: uniq)
        with r True show ?thesis by simp
      next
        case False
        moreover have "lease_consistent row"
          using i assms(3) by (auto simp add: store_lease_consistent_def list_all_iff)
        ultimately show ?thesis by simp
      qed
    qed
  qed
  finally show ?thesis .
qed

text \<open>
  C3, as stated: after every store operation every stored mapping satisfies
  \<open>end_of_life = start_of_life + lifetime\<close>. It fails after a refresh: a mapping created at
  1000 with lifetime 120 satisfies the equation; the refresh at 1010 with lifetime 60 and
  end of life 1070 succeeds and leaves \<open>start_of_life = 1000\<close>, \<open>lifetime = 60\<close>,
  \<open>end_of_life = 1070\<close>.
\<close>

theorem lease_equation_refresh_counterexample:
  "store_lease_consistent
     (snd (pcp_mapping_add MAXIMUM_MAPPING_ID [] 1000 1000 10 (1, 2, 3) 5 4000 6 4001 120 1 6)) \<and>
   fst (pcp_mapping_refresh_lifetime
     (snd (pcp_mapping_add MAXIMUM_MAPPING_ID [] 1000 1000 10 (1, 2, 3) 5 4000 6 4001 120 1 6))
     1010 10 60 1070) \<and>
   \<not> store_lease_consistent
     (snd (pcp_mapping_refresh_lifetime
        (snd (pcp_mapping_add MAXIMUM_MAPPING_ID [] 1000 1000 10 (1, 2, 3) 5 4000 6 4001 120 1 6))
        1010 10 60 1070))"
  by (simp add: pcp_mapping_refresh_lifetime_def pcp_mapping_add_def pcp_mapping_find_def Let_def
      store_lease_consistent_def lease_consistent_def)

text \<open>
  C3, amended. In a store whose mappings all satisfy
  \<open>end_of_life = start_of_life + lifetime\<close> (32-bit arithmetic) the equation still holds for
  every mapping after \<open>pcp_mapping_add\<close>, when its two clock readings agree, after
  \<open>pcp_mapping_delete\<close> and after \<open>pcp_mapping_deleteall\<close>. A successful
  \<open>pcp_mapping_refresh_lifetime\<close> with lifetime \<open>l\<close> and end of life \<open>e\<close> stores exactly
  these two values in the mapping and keeps its \<open>start_of_life\<close>, so the equation holds
  afterwards exactly when \<open>e = start_of_life + l\<close>.
\<close>

theorem lease_equation_after_operations:
  assumes "store_lease_consistent s" and "distinct (apteryx_search s)"
  shows "store_lease_consistent
           (snd (pcp_mapping_add mx s t t index_arg nonce int_ip int_port ext_ip ext_port lt opc proto)) \<and>
         store_lease_consistent (snd (pcp_mapping_delete s idx)) \<and>
         store_lease_consistent (snd (pcp_mapping_deleteall s)) \<and>
         (\<forall>m. pcp_mapping_find s idx = Some m \<and> fst (pcp_mapping_refresh_lifetime s t' idx l e) \<longrightarrow>
            pcp_mapping_find (snd (pcp_mapping_refresh_lifetime s t' idx l e)) idx
              = Some (m\<lparr>lifetime := l, end_of_life := e\<rparr>) \<and>
            (store_lease_consistent (snd (pcp_mapping_refresh_lifetime s t' idx l e))
               \<longleftrightarrow> e = start_of_life m + l))"
proof -
  have add: "store_lease_consistent
           (snd (pcp_mapping_add mx s t t index_arg nonce int_ip int_port ext_ip ext_port lt opc proto))"
  proof -
    have "lease_consistent \<lparr>index = i, mapping_nonce = nonce, internal_ip = int_ip,
            internal_port = int_port, external_ip = ext_ip, external_port = ext_port,
            lifetime = lt, start_of_life = word_of_int t,
            end_of_life = word_of_int (t + uint lt), opcode = opc, protocol = proto\<rparr>" for i
      by (simp add: lease_consistent_def)
    then show ?thesis
      using assms(1)
      by (simp add: pcp_mapping_add_def Let_def slc_append split: option.splits)
  qed
  have del: "store_lease_consistent (snd (pcp_mapping_delete s idx))"
    using assms(1) by (simp add: pcp_mapping_delete_def slc_filter split: option.splits)
  have delall: "store_lease_consistent (snd (pcp_mapping_deleteall s))"
    by (simp add: pcp_mapping_deleteall_def store_lease_consistent_def)
  have refresh:
    "pcp_mapping_find (snd (pcp_mapping_refresh_lifetime s t' idx l e)) idx
              = Some (m\<lparr>lifetime := l, end_of_life := e\<rparr>) \<and>
     (store_lease_consistent (snd (pcp_mapping_refresh_lifetime s t' idx l e))
               \<longleftrightarrow> e = start_of_life m + l)"
    if a: "pcp_mapping_find s idx = Some m \<and> fst (pcp_mapping_refresh_lifetime s t' idx l e)" for m
  proof
    from a obtain m0 where m0: "map_of s idx = Some m0" "m = m0\<lparr>index := idx\<rparr>"
      by (auto simp add: pcp_mapping_find_def split: option.splits)
    show "pcp_mapping_find (snd (pcp_mapping_refresh_lifetime s t' idx l e)) idx
              = Some (m\<lparr>lifetime := l, end_of_life := e\<rparr>)"
      using a by (simp add: refresh_lifetime_success_find)
    have "snd (pcp_mapping_refresh_lifetime s t' idx l e)
          = map (\<lambda>(k, row). if k = idx then (k, row\<lparr>lifetime := l, end_of_life := e\<rparr>) else (k, row)) s"
      using a by (simp add: pcp_mapping_refresh_lifetime_def Let_def split: if_splits)
    moreover have "store_lease_consistent
          (map (\<lambda>(k, row). if k = idx then (k, row\<lparr>lifetime := l, end_of_life := e\<rparr>) else (k, row)) s)
        \<longleftrightarrow> lease_consistent (m0\<lparr>lifetime := l, end_of_life := e\<rparr>)"
      using assms m0(1) by (intro slc_refresh_rows) (simp_all add: apteryx_search_def)
    ultimately show "store_lease_consistent (snd (pcp_mapping_refresh_lifetime s t' idx l e))
               \<longleftrightarrow> e = start_of_life m + l"
      by (simp add: lease_consistent_def m0(2))
  qed
  from add del delall refresh show ?thesis by blast
qed

theorem lease_equation_after_operations_witness:
  "store_lease_consistent
     [(10, \<lparr>index = 10, mapping_nonce = (1, 2, 3), internal_ip = 5, internal_port = 4000,
            external_ip = 6, external_port = 4001, lifetime = 120, start_of_life = 1000,
            end_of_life = 1120, opcode = 1, protocol = 6\<rparr>)] \<and>
   distinct (apteryx_search
     [(10, \<lparr>index = 10, mapping_nonce = (1, 2, 3), internal_ip = 5, internal_port = 4000,
            external_ip = 6, external_port = 4001, lifetime = 120, start_of_life = 1000,
            end_of_life = 1120, opcode = 1, protocol = 6\<rparr>)]) \<and>
   store_lease_consistent
     (snd (pcp_mapping_add MAXIMUM_MAPPING_ID
        [(10, \<lparr>index = 10, mapping_nonce = (1, 2, 3), internal_ip = 5, internal_port = 4000,
               external_ip = 6, external_port = 4001, lifetime = 120, start_of_life = 1000,
               end_of_life = 1120, opcode = 1, protocol = 6\<rparr>)]
        2000 2000 (- 1) (4, 5, 6) 7 5000 8 5001 60 1 17)) \<and>
   store_lease_consistent
     (snd (pcp_mapping_delete
        [(10, \<lparr>index = 10, mapping_nonce = (1, 2, 3), internal_ip = 5, internal_port = 4000,
               external_ip = 6, external_port = 4001, lifetime = 120, start_of_life = 1000,
               end_of_life = 1120, opcode = 1, protocol = 6\<rparr>)] 10)) \<and>
   fst (pcp_mapping_refresh_lifetime
        [(10, \<lparr>index = 10, mapping_nonce = (1, 2, 3), internal_ip = 5, internal_port = 4000,
               external_ip = 6, external_port = 4001, lifetime = 120, start_of_life = 1000,
               end_of_life = 1120, opcode = 1, protocol = 6\<rparr>)] 1002 10 60 1060) \<and>
   store_lease_consistent
     (snd (pcp_mapping_refresh_lifetime
        [(10, \<lparr>index = 10, mapping_nonce = (1, 2, 3), internal_ip = 5, internal_port = 4000,
               external_ip = 6, external_port = 4001, lifetime = 120, start_of_life = 1000,
               end_of_life = 1120, opcode = 1, protocol = 6\<rparr>)] 1002 10 60 1060))"
proof -
  let ?row = "\<lparr>index = 10, mapping_nonce = (1, 2, 3), internal_ip = 5, internal_port = 4000,
            external_ip = 6, external_port = 4001, lifetime = 120, start_of_life = 1000,
            end_of_life = 1120, opcode = 1, protocol = 6\<rparr> :: pcp_mapping"
  let ?s = "[(10, ?row)] :: mapping_store"
  have h1: "store_lease_consistent ?s"
    by (simp add: store_lease_consistent_def lease_consistent_def)
  have h2: "distinct (apteryx_search ?s)"
    by (simp add: apteryx_search_def)
  have f: "pcp_mapping_find ?s 10 = Some ?row"
    by (simp add: pcp_mapping_find_def)
  have r: "fst (pcp_mapping_refresh_lifetime ?s 1002 10 60 1060)"
    by (simp add: pcp_mapping_refresh_lifetime_def pcp_mapping_find_def Let_def)
  have "store_lease_consistent (snd (pcp_mapping_refresh_lifetime ?s 1002 10 60 1060))
          \<longleftrightarrow> (1060 :: u_int32_t) = start_of_life ?row + 60"
    using lease_equation_after_operations [OF h1 h2, where idx = 10 and t' = 1002 and l = 60
        and e = 1060] f r
    by blast
  then have c: "store_lease_consistent (snd (pcp_mapping_refresh_lifetime ?s 1002 10 60 1060))"
    by simp
  show ?thesis
    using lease_equation_after_operations [OF h1 h2, where mx = MAXIMUM_MAPPING_ID and t = 2000
        and index_arg = "- 1" and nonce = "(4, 5, 6)" and int_ip = 7 and int_port = 5000
        and ext_ip = 8 and ext_port = 5001 and lt = 60 and opc = 1 and proto = 17 and idx = 10]
      h1 h2 r c
    by blast
qed

section \<open>Listing the mappings\<close>

lemma set_g_list_insert_sorted: "set (g_list_insert_sorted xs x cmp) = insert x (set xs)"
  by (induction xs) auto

lemma length_g_list_insert_sorted: "length (g_list_insert_sorted xs x cmp) = Suc (length xs)"
  by (induction xs) auto

lemma sorted_g_list_insert_sorted:
  assumes "sorted (map key xs)" and "\<forall>y \<in> set xs. 0 <s cmp x y \<longleftrightarrow> key y < key x"
  shows "sorted (map (key :: 'a \<Rightarrow> int) (g_list_insert_sorted xs x cmp))"
  using assms
proof (induction xs)
  case Nil
  then show ?case by simp
next
  case (Cons y ys)
  show ?case
  proof (cases "0 <s cmp x y")
    case True
    then have "key y < key x" using Cons.prems(2) by simp
    moreover have "sorted (map key (g_list_insert_sorted ys x cmp))"
      using Cons by simp
    ultimately show ?thesis
      using True Cons.prems(1) by (auto simp add: set_g_list_insert_sorted)
  next
    case False
    then have "key x \<le> key y" using Cons.prems(2) by auto
    then show ?thesis
      using False Cons.prems(1) by auto
  qed
qed

lemma mapping_index_cmp_non_negative:
  assumes "0 \<le> sint (index a)" "0 \<le> sint (index b)"
  shows "0 <s mapping_index_cmp a b \<longleftrightarrow> sint (index b) < sint (index a)"
proof -
  have "sint (index a - index b) = sint (index a) - sint (index b)"
    using assms sint_c_int_range [of "index a"] sint_c_int_range [of "index b"]
    by (simp add: sint_word_ariths signed_take_bit_int_eq_self)
  then show ?thesis
    by (simp add: mapping_index_cmp_def word_sless_alt)
qed

lemma getall_loop_sorted:
  assumes "ids_non_negative s" "set ids \<subseteq> fst ` set s"
    and "sorted_by_index acc" "\<forall>m \<in> set acc. 0 \<le> sint (index m)"
  shows "sorted_by_index
           (foldl (\<lambda>mappings mapping_id.
                     case pcp_mapping_find s mapping_id of
                       None \<Rightarrow> mappings
                     | Some mapping \<Rightarrow> g_list_insert_sorted mappings mapping mapping_index_cmp)
              acc ids)"
  using assms(2-)
proof (induction ids arbitrary: acc)
  case Nil
  then show ?case by simp
next
  case (Cons k ids)
  have k0: "0 \<le> sint k"
    using Cons.prems(1) assms(1)
    by (auto simp add: ids_non_negative_def list_all_iff word_sle_eq)
  show ?case
  proof (cases "pcp_mapping_find s k")
    case None
    then show ?thesis using Cons by simp
  next
    case (Some m)
    then have im: "index m = k"
      by (auto simp add: pcp_mapping_find_def split: option.splits)
    let ?acc = "g_list_insert_sorted acc m mapping_index_cmp"
    have "sorted_by_index ?acc"
      unfolding sorted_by_index_def
      using Cons.prems(2,3) k0 im
      by (intro sorted_g_list_insert_sorted)
         (simp_all add: sorted_by_index_def mapping_index_cmp_non_negative)
    moreover have "\<forall>m' \<in> set ?acc. 0 \<le> sint (index m')"
      using Cons.prems(3) k0 im by (simp add: set_g_list_insert_sorted)
    ultimately show ?thesis
      using Cons.IH [of ?acc] Cons.prems(1) Some by simp
  qed
qed

lemma getall_sorted_non_negative:
  "ids_non_negative s \<Longrightarrow> sorted_by_index (pcp_mapping_getall s)"
  unfolding pcp_mapping_getall_def
  by (rule getall_loop_sorted) (simp_all add: apteryx_search_def sorted_by_index_def)

lemma getall_loop_set:
  "set (foldl (\<lambda>mappings mapping_id.
                     case pcp_mapping_find s mapping_id of
                       None \<Rightarrow> mappings
                     | Some mapping \<Rightarrow> g_list_insert_sorted mappings mapping mapping_index_cmp)
              acc ids)
     = set acc \<union> {m. \<exists>k \<in> set ids. pcp_mapping_find s k = Some m}"
  by (induction ids arbitrary: acc)
     (auto simp add: set_g_list_insert_sorted split: option.splits)

lemma getall_set:
  "set (pcp_mapping_getall s) = {m. \<exists>k \<in> fst ` set s. pcp_mapping_find s k = Some m}"
  by (simp add: pcp_mapping_getall_def getall_loop_set apteryx_search_def)

text \<open>
  C7. \<open>pcp_mapping_getall\<close> is to return the live mappings in ascending order of index.
  \<open>pcp_mapping_add\<close> accepts any index but \<open>-1\<close>; in the store that holds the mappings
  2000000000 and -2000000000 the comparison function \<open>mapping_index_cmp\<close> forms a
  difference that leaves the range of \<open>int\<close>, and the list returned is
  \<open>[2000000000, -2000000000]\<close>, in whichever order the two were added. Lemma
  \<open>getall_sorted_non_negative\<close> shows the list sorted for every store without a negative
  id, and \<open>getall_set\<close> that it holds the live mappings.
\<close>

theorem getall_unsorted:
  "map (\<lambda>m. sint (index m))
     (pcp_mapping_getall
        (snd (pcp_mapping_add MAXIMUM_MAPPING_ID
           (snd (pcp_mapping_add MAXIMUM_MAPPING_ID [] 1000 1000 2000000000 (1, 2, 3)
                   5 4000 6 4001 120 1 6))
           1000 1000 (- 2000000000) (4, 5, 6) 7 5000 8 5001 60 1 17)))
     = [2000000000, - 2000000000] \<and>
   map (\<lambda>m. sint (index m))
     (pcp_mapping_getall
        (snd (pcp_mapping_add MAXIMUM_MAPPING_ID
           (snd (pcp_mapping_add MAXIMUM_MAPPING_ID [] 1000 1000 (- 2000000000) (4, 5, 6)
                   7 5000 8 5001 60 1 17))
           1000 1000 2000000000 (1, 2, 3) 5 4000 6 4001 120 1 6)))
     = [2000000000, - 2000000000] \<and>
   \<not> sorted_by_index
     (pcp_mapping_getall
        (snd (pcp_mapping_add MAXIMUM_MAPPING_ID
           (snd (pcp_mapping_add MAXIMUM_MAPPING_ID [] 1000 1000 2000000000 (1, 2, 3)
                   5 4000 6 4001 120 1 6))
           1000 1000 (- 2000000000) (4, 5, 6) 7 5000 8 5001 60 1 17)))"
  by (simp add: pcp_mapping_getall_def pcp_mapping_add_def pcp_mapping_find_def Let_def
      apteryx_search_def mapping_index_cmp_def sorted_by_index_def word_sless_alt)

section \<open>Loading the configuration\<close>

lemma guarded_cb_null: "saved_cbs st = None \<Longrightarrow> guarded_cb st f v = st"
  by (simp add: guarded_cb_def)

lemma pcp_config_changed_null:
  "saved_cbs st = None \<Longrightarrow> snd (pcp_config_changed st path) = st"
  by (simp add: pcp_config_changed_def Let_def guarded_cb_null split: option.splits)

lemma pcp_load_config_fault_iff:
  "pcp_load_config d st = Inl NullPointerDereference
     \<longleftrightarrow> pcp_initialized_get (config st) \<and> saved_cbs st = None"
  by (simp add: pcp_load_config_def Let_def split: option.splits prod.splits)

text \<open>
  C9. \<open>pcp_load_config\<close> dereferences a null pointer exactly when the database reports
  \<open>pcp_initialized\<close> and \<open>saved_cbs\<close> is \<open>NULL\<close>: with a registered callback table it
  returns normally, whatever the database holds, and from the initial state
  (\<open>saved_cbs = NULL\<close>) with an initialized database it faults. \<open>pcp_config_changed\<close>, which
  tests \<open>saved_cbs\<close> before each use, returns in that state and changes nothing.
\<close>

theorem pcp_load_config_null_dereference:
  "(pcp_load_config d st = Inl NullPointerDereference
      \<longleftrightarrow> pcp_initialized_get (config st) \<and> saved_cbs st = None) \<and>
   (saved_cbs st \<noteq> None \<longrightarrow> (\<exists>r. pcp_load_config d st = Inr r)) \<and>
   (pcp_initialized_get db \<longrightarrow>
      pcp_load_config d (initial_state db c) = Inl NullPointerDereference) \<and>
   (saved_cbs st = None \<longrightarrow> snd (pcp_config_changed st path) = st)"
proof (intro conjI impI)
  show "pcp_load_config d st = Inl NullPointerDereference
      \<longleftrightarrow> pcp_initialized_get (config st) \<and> saved_cbs st = None"
    by (rule pcp_load_config_fault_iff)
  show "\<exists>r. pcp_load_config d st = Inr r" if "saved_cbs st \<noteq> None"
  proof (cases "pcp_load_config d st")
    case (Inl f)
    then have "pcp_load_config d st = Inl NullPointerDereference"
      by (cases f) simp
    with that show ?thesis by (simp add: pcp_load_config_fault_iff)
  next
    case (Inr r)
    then show ?thesis by blast
  qed
  show "pcp_load_config d (initial_state db c) = Inl NullPointerDereference"
    if "pcp_initialized_get db"
    using that by (simp add: pcp_load_config_fault_iff initial_state_def)
  show "snd (pcp_config_changed st path) = st" if "saved_cbs st = None"
    using that by (rule pcp_config_changed_null)
qed

text \<open>The witness: \<open>pcp_load_config\<close> called twice from the initial state with an empty
  database and no callback table registered. The first call initializes the database, the
  second one faults; after \<open>pcp_register_cb\<close> with a table it does not.\<close>

theorem pcp_load_config_null_dereference_witness:
  "pcp_load_config
     \<lparr>DEFAULT_MAP_SUPPORT = True, DEFAULT_PEER_SUPPORT = True,
      DEFAULT_THIRD_PARTY_SUPPORT = False, DEFAULT_PROXY_SUPPORT = False,
      DEFAULT_UPNP_IGD_PCP_IWF_SUPPORT = False, DEFAULT_MIN_MAPPING_LIFETIME = 120,
      DEFAULT_MAX_MAPPING_LIFETIME = 86400, DEFAULT_PREFER_FAILURE_REQ_RATE_LIMIT = 256\<rparr>
     (initial_state Map.empty ())
   = Inr (True,
       \<lparr>config = snd (config_set_default
           \<lparr>DEFAULT_MAP_SUPPORT = True, DEFAULT_PEER_SUPPORT = True,
            DEFAULT_THIRD_PARTY_SUPPORT = False, DEFAULT_PROXY_SUPPORT = False,
            DEFAULT_UPNP_IGD_PCP_IWF_SUPPORT = False, DEFAULT_MIN_MAPPING_LIFETIME = 120,
            DEFAULT_MAX_MAPPING_LIFETIME = 86400, DEFAULT_PREFER_FAILURE_REQ_RATE_LIMIT = 256\<rparr>
           (pcp_enabled_set (pcp_initialized_set Map.empty True) True)),
        saved_cbs = None, client = ()\<rparr>) \<and>
   pcp_load_config
     \<lparr>DEFAULT_MAP_SUPPORT = True, DEFAULT_PEER_SUPPORT = True,
      DEFAULT_THIRD_PARTY_SUPPORT = False, DEFAULT_PROXY_SUPPORT = False,
      DEFAULT_UPNP_IGD_PCP_IWF_SUPPORT = False, DEFAULT_MIN_MAPPING_LIFETIME = 120,
      DEFAULT_MAX_MAPPING_LIFETIME = 86400, DEFAULT_PREFER_FAILURE_REQ_RATE_LIMIT = 256\<rparr>
     \<lparr>config = snd (config_set_default
           \<lparr>DEFAULT_MAP_SUPPORT = True, DEFAULT_PEER_SUPPORT = True,
            DEFAULT_THIRD_PARTY_SUPPORT = False, DEFAULT_PROXY_SUPPORT = False,
            DEFAULT_UPNP_IGD_PCP_IWF_SUPPORT = False, DEFAULT_MIN_MAPPING_LIFETIME = 120,
            DEFAULT_MAX_MAPPING_LIFETIME = 86400, DEFAULT_PREFER_FAILURE_REQ_RATE_LIMIT = 256\<rparr>
           (pcp_enabled_set (pcp_initialized_set Map.empty True) True)),
      saved_cbs = None, client = ()\<rparr>
   = Inl NullPointerDereference \<and>
   (\<exists>r. pcp_load_config
     \<lparr>DEFAULT_MAP_SUPPORT = True, DEFAULT_PEER_SUPPORT = True,
      DEFAULT_THIRD_PARTY_SUPPORT = False, DEFAULT_PROXY_SUPPORT = False,
      DEFAULT_UPNP_IGD_PCP_IWF_SUPPORT = False, DEFAULT_MIN_MAPPING_LIFETIME = 120,
      DEFAULT_MAX_MAPPING_LIFETIME = 86400, DEFAULT_PREFER_FAILURE_REQ_RATE_LIMIT = 256\<rparr>
     (snd (pcp_register_cb
        \<lparr>config = snd (config_set_default
             \<lparr>DEFAULT_MAP_SUPPORT = True, DEFAULT_PEER_SUPPORT = True,
              DEFAULT_THIRD_PARTY_SUPPORT = False, DEFAULT_PROXY_SUPPORT = False,
              DEFAULT_UPNP_IGD_PCP_IWF_SUPPORT = False, DEFAULT_MIN_MAPPING_LIFETIME = 120,
              DEFAULT_MAX_MAPPING_LIFETIME = 86400, DEFAULT_PREFER_FAILURE_REQ_RATE_LIMIT = 256\<rparr>
             (pcp_enabled_set (pcp_initialized_set Map.empty True) True)),
         saved_cbs = None, client = ()\<rparr>
        (Some \<lparr>pcp_enabled = None, map_support = None, peer_support = None,
               third_party_support = None, proxy_support = None,
               upnp_igd_pcp_iwf_support = None, min_mapping_lifetime = None,
               max_mapping_lifetime = None, prefer_failure_req_rate_limit = None,
               startup_epoch_time = None\<rparr>))) = Inr r)"
proof -
  let ?d = "\<lparr>DEFAULT_MAP_SUPPORT = True, DEFAULT_PEER_SUPPORT = True,
      DEFAULT_THIRD_PARTY_SUPPORT = False, DEFAULT_PROXY_SUPPORT = False,
      DEFAULT_UPNP_IGD_PCP_IWF_SUPPORT = False, DEFAULT_MIN_MAPPING_LIFETIME = 120,
      DEFAULT_MAX_MAPPING_LIFETIME = 86400, DEFAULT_PREFER_FAILURE_REQ_RATE_LIMIT = 256\<rparr>"
  let ?db = "snd (config_set_default ?d (pcp_enabled_set (pcp_initialized_set Map.empty True) True))"
  let ?st = "\<lparr>config = ?db, saved_cbs = None, client = ()\<rparr> :: unit pcp_state"
  let ?cbs = "\<lparr>pcp_enabled = None, map_support = None, peer_support = None,
               third_party_support = None, proxy_support = None,
               upnp_igd_pcp_iwf_support = None, min_mapping_lifetime = None,
               max_mapping_lifetime = None, prefer_failure_req_rate_limit = None,
               startup_epoch_time = None\<rparr> :: unit pcp_callbacks"
  have fresh: "\<not> pcp_initialized_get Map.empty"
    by (simp add: pcp_initialized_get_def apteryx_get_int_def)
  have first: "pcp_load_config ?d (initial_state Map.empty ()) = Inr (True, ?st)"
    using fresh
    by (simp add: pcp_load_config_def initial_state_def Let_def config_set_default_def)
  have init: "pcp_initialized_get ?db"
    by (simp add: config_set_default_def pcp_initialized_get_def pcp_initialized_set_def
        pcp_enabled_set_def map_support_set_def peer_support_set_def third_party_support_set_def
        proxy_support_set_def upnp_igd_pcp_iwf_support_set_def min_mapping_lifetime_set_def
        max_mapping_lifetime_set_def prefer_failure_req_rate_limit_set_def
        apteryx_get_int_def apteryx_set_int_def
        PCP_INITIALIZED_KEY_def PCP_ENABLED_KEY_def MAP_SUPPORT_KEY_def PEER_SUPPORT_KEY_def
        THIRD_PARTY_SUPPORT_KEY_def PROXY_SUPPORT_KEY_def UPNP_IGD_PCP_IWF_SUPPORT_KEY_def
        MIN_MAPPING_LIFETIME_KEY_def MAX_MAPPING_LIFETIME_KEY_def
        PREFER_FAILURE_REQ_RATE_LIMIT_KEY_def)
  have reg: "saved_cbs (snd (pcp_register_cb ?st (Some ?cbs))) \<noteq> None"
    by (simp add: pcp_register_cb_def)
  have second: "pcp_load_config ?d ?st = Inl NullPointerDereference"
    using pcp_load_config_null_dereference [where d = ?d and st = ?st and db = Map.empty
        and c = "()" and path = None, THEN conjunct1] init
    by simp
  have third: "\<exists>r. pcp_load_config ?d (snd (pcp_register_cb ?st (Some ?cbs))) = Inr r"
    using pcp_load_config_null_dereference [where d = ?d
        and st = "snd (pcp_register_cb ?st (Some ?cbs))" and db = Map.empty and c = "()"
        and path = None, THEN conjunct2, THEN conjunct1] reg
    by blast
  from first second third show ?thesis by blast
qed

section \<open>Processing a MAP request\<close>

text \<open>
  C4. A MAP request whose header version is not 2 is to be answered with the result code
  \<open>UNSUPP_VERSION\<close> and lifetime 0. \<open>process_map_request\<close> does not look at the version
  (the check is a TODO comment in its body): for every request with version 1 the response
  carries \<open>SUCCESS\<close> and the lifetime 9001.
\<close>

theorem process_map_request_version_1:
  "req_version (mreq_header (map_req\<lparr>mreq_header := (mreq_header map_req)\<lparr>req_version := 1\<rparr>\<rparr>))
     \<noteq> PCP_VERSION \<and>
   resp_result_code (mresp_header (process_map_request epoch
     (map_req\<lparr>mreq_header := (mreq_header map_req)\<lparr>req_version := 1\<rparr>\<rparr>))) = SUCCESS \<and>
   resp_lifetime (mresp_header (process_map_request epoch
     (map_req\<lparr>mreq_header := (mreq_header map_req)\<lparr>req_version := 1\<rparr>\<rparr>))) = 9001"
  by (simp add: process_map_request_def new_pcp_map_response_def new_pcp_response_header_def
      PCP_VERSION_def Let_def)

end
